theory Spec2Isabelle
  imports Complex_Main
begin

section \<open>The scene description and the engine's objects\<close>

text \<open>
  The sprite of \<^verbatim>\<open>rive_pixi.js\<close> drives objects of the animation engine: a parsed
  file, one artboard instance, animation and state-machine instances, and the input
  objects of the state machines. JavaScript numbers are modelled as exact reals;
  rounding is not part of the model and nothing that depends on it is derived. Every call that the sprite makes into the
  engine, the renderer, the texture or the user's callback is recorded in a trace.
\<close>

datatype Fit = Cover | Contain | Fill | FitWidth | FitHeight | NoneFit | ScaleDown

datatype Alignment = Center | TopLeft | TopCenter | TopRight | CenterLeft | CenterRight
  | BottomLeft | BottomCenter | BottomRight

text \<open>The kind tag \<^verbatim>\<open>SMIInput.bool / number / trigger\<close> read off every input.\<close>

datatype SMIInput_type = SMI_bool | SMI_number | SMI_trigger

datatype js_value = JBool bool | JNum real

record input_def =
  idef_name :: string
  idef_type :: SMIInput_type
  idef_value :: js_value

record sm_def =
  smd_name :: string
  smd_inputs :: "input_def list"

record AABB =
  minX :: real
  minY :: real
  maxX :: real
  maxY :: real

record artboard_def =
  abd_name :: string
  abd_bounds :: AABB
  abd_machines :: "sm_def list"
  abd_animations :: "string list"

type_synonym File = "artboard_def list"

text \<open>An input object of a live state machine; the registry refers to it by address.\<close>

record SMIInput =
  in_name :: string
  in_type :: SMIInput_type
  in_value :: js_value

text \<open>
  The engine's instance objects. \<open>sm_machine\<close> and \<open>an_animation\<close> say which definition
  an instance was made from (nothing for \<^verbatim>\<open>null\<close>); the engine knows it, the sprite
  cannot read it. \<open>sm_name\<close> and \<open>an_name\<close> are what the sprite reads as \<^verbatim>\<open>machine.name\<close>
  and \<^verbatim>\<open>animation.name\<close>: the engine's instances have no such property, so the
  constructors below leave it \<^verbatim>\<open>undefined\<close>.
\<close>

record StateMachineInstance =
  sm_id :: nat
  sm_machine :: "string option"
  sm_name :: "string option"
  sm_inputs :: "nat list"
  sm_changed :: "string list"

record LinearAnimationInstance =
  an_id :: nat
  an_animation :: "string option"
  an_name :: "string option"

record Artboard =
  ab_id :: nat
  ab_def :: artboard_def

text \<open>The fields of the alignment matrix that \<^verbatim>\<open>translatePoint\<close> reads.\<close>

record Mat2D =
  xx :: real
  yy :: real
  tx :: real
  ty :: real

record Canvas =
  width :: real
  height :: real

datatype event =
    SM_new nat
  | SM_delete nat
  | SM_advance nat real
  | SM_pointerDown nat real real
  | SM_pointerUp nat real real
  | SM_pointerMove nat real real
  | Anim_new nat
  | Anim_delete nat
  | Anim_advance nat real
  | Anim_apply nat real
  | Artboard_new nat
  | Artboard_delete nat
  | Artboard_advance nat real
  | Artboard_draw nat
  | Renderer_clear
  | Renderer_save
  | Renderer_restore
  | Renderer_flush
  | Renderer_align
  | Renderer_delete
  | Texture_from
  | Texture_update
  | Input_fire nat
  | OnStateChange "string list"
  | Sprite_destroy
  | File_delete

text \<open>
  What the engine computes is not part of the repository; it is a parameter.
  \<open>changedStates eng elapsed m\<close> is the list of state names machine \<open>m\<close> reports as changed
  after \<^verbatim>\<open>m.advance(elapsed)\<close>; \<open>computeAlignment\<close> is the engine's alignment calculator.
\<close>

record engine =
  changedStates :: "real \<Rightarrow> StateMachineInstance \<Rightarrow> string list"
  computeAlignment :: "Fit \<Rightarrow> Alignment \<Rightarrow> AABB \<Rightarrow> AABB \<Rightarrow> Mat2D"

datatype error = TypeError

section \<open>The sprite\<close>

text \<open>
  The fields of \<^verbatim>\<open>RiveSprite\<close> (the leading underscore of the private ones dropped),
  followed by the part of the world the sprite acts on: whether pointer handlers are
  attached, the engine's input objects by address, the next fresh address, the frame
  requests the engine's scheduler still holds, the last handle it has given out in the
  current frame, and the trace.
\<close>

record sprite =
  animFrame :: nat
  lastTime :: real
  enabled :: bool
  debug :: bool
  rive :: bool
  riveFile :: "File option"
  aligned :: "Mat2D option"
  renderer :: bool
  canvas :: "Canvas option"
  maxWidth :: real
  maxHeight :: real
  fit :: Fit
  align :: Alignment
  animations :: "LinearAnimationInstance list"
  stateMachines :: "StateMachineInstance list"
  inputFields :: "string \<rightharpoonup> nat"
  onStateChange :: bool
  artboard :: "Artboard option"
  pointerHandlers :: bool
  heap :: "nat \<Rightarrow> SMIInput"
  next_id :: nat
  pending :: "nat list"
  requested :: nat
  trace :: "event list"

text \<open>The field values the constructor installs before anything is loaded.\<close>

definition new_sprite :: sprite where
  "new_sprite =
     \<lparr>animFrame = 0, lastTime = 0, enabled = False, debug = False, rive = False,
      riveFile = None, aligned = None, renderer = False, canvas = None,
      maxWidth = 0, maxHeight = 0, fit = Contain, align = Center,
      animations = [], stateMachines = [], inputFields = Map.empty,
      onStateChange = False, artboard = None, pointerHandlers = False,
      heap = (\<lambda>_. \<lparr>in_name = [], in_type = SMI_number, in_value = JNum 0\<rparr>),
      next_id = 0, pending = [], requested = 0, trace = []\<rparr>"

text \<open>
  The synchronous part of the constructor: the options \<^verbatim>\<open>debug\<close>, \<^verbatim>\<open>onStateChange\<close> (set
  or not) and \<^verbatim>\<open>interactive\<close> are taken over; \<^verbatim>\<open>initEvents\<close> attaches the three pointer
  handlers only for an interactive sprite.
\<close>

definition initEvents :: "bool \<Rightarrow> sprite \<Rightarrow> sprite" where
  "initEvents interactive s = (if \<not> interactive then s else s\<lparr>pointerHandlers := True\<rparr>)"

definition construct :: "bool \<Rightarrow> bool \<Rightarrow> bool \<Rightarrow> sprite" where
  "construct dbg cb interactive = initEvents interactive (new_sprite\<lparr>debug := dbg, onStateChange := cb\<rparr>)"

text \<open>
  \<^verbatim>\<open>createCanvas\<close>: an offscreen canvas of 100 by 100, or in debug mode a page canvas
  (a fresh canvas element is 300 by 150).
\<close>

definition createCanvas :: "sprite \<Rightarrow> Canvas" where
  "createCanvas s = (if debug s then \<lparr>width = 300, height = 150\<rparr> else \<lparr>width = 100, height = 100\<rparr>)"

text \<open>\<^verbatim>\<open>initRive\<close>, once the asset and the engine have been awaited: \<open>f\<close> is the parsed file.\<close>

definition initRive :: "File \<Rightarrow> sprite \<Rightarrow> sprite" where
  "initRive f s = s\<lparr>rive := True, riveFile := Some f, canvas := Some (createCanvas s), renderer := True\<rparr>"

subsection \<open>The engine's frame scheduler\<close>

text \<open>
  \<^verbatim>\<open>this._rive.requestAnimationFrame(this.renderLoop)\<close> queues one call of the render
  loop and returns its handle; \<^verbatim>\<open>cancelAnimationFrame(h)\<close> removes the request with that
  handle if it is still queued. The scheduler numbers the requests 1, 2, ... and
  starts again from 1 whenever it begins to run the callbacks of a frame, so a handle
  is unique only among the requests made since then.
\<close>

definition requestAnimationFrame :: "sprite \<Rightarrow> nat \<times> sprite" where
  "requestAnimationFrame s =
     (Suc (requested s), s\<lparr>pending := pending s @ [Suc (requested s)], requested := Suc (requested s)\<rparr>)"

definition cancelAnimationFrame :: "nat \<Rightarrow> sprite \<Rightarrow> sprite" where
  "cancelAnimationFrame h s = s\<lparr>pending := filter (\<lambda>k. k \<noteq> h) (pending s)\<rparr>"

subsection \<open>Enabling and disabling\<close>

definition enable :: "sprite \<Rightarrow> sprite" where
  "enable s =
     (let s1 = s\<lparr>enabled := True\<rparr> in
      if animFrame s1 = 0 \<and> rive s1
      then (case requestAnimationFrame s1 of (h, s2) \<Rightarrow> s2\<lparr>animFrame := h\<rparr>)
      else s1)"

definition disable :: "sprite \<Rightarrow> sprite" where
  "disable s =
     (let s1 = s\<lparr>enabled := False\<rparr> in
      if animFrame s1 \<noteq> 0 \<and> rive s1
      then (cancelAnimationFrame (animFrame s1) s1)\<lparr>animFrame := 0\<rparr>
      else s1)"

subsection \<open>Pointer translation and sizing\<close>

type_synonym point = "real \<times> real"

text \<open>
  \<^verbatim>\<open>translatePoint\<close>. \<open>toLocal\<close> is the host's conversion of a global point into the
  sprite's local coordinates. Subtraction and division are those of the reals, where
  the code computes on doubles and rounds. The one fact derived from this definition
  is the fallback to the identity alignment, whose operations, \<open>x - 0\<close> and \<open>x / 1\<close>,
  are exact on doubles as well.
\<close>

definition identityAlignment :: Mat2D where
  "identityAlignment = \<lparr>xx = 1, yy = 1, tx = 0, ty = 0\<rparr>"

definition translatePoint :: "(point \<Rightarrow> point) \<Rightarrow> sprite \<Rightarrow> point \<Rightarrow> point" where
  "translatePoint toLocal s global =
     (case toLocal global of (x, y) \<Rightarrow>
        (let a = (case aligned s of Some m \<Rightarrow> m | None \<Rightarrow> identityAlignment)
         in ((x - tx a) / xx a, (y - ty a) / yy a)))"

text \<open>
  \<^verbatim>\<open>updateSize\<close>. A renderer exists only together with the canvas it was made from
  (\<^verbatim>\<open>initRive\<close> creates both), so the canvas is resized where there is one.
\<close>

definition updateSize :: "engine \<Rightarrow> sprite \<Rightarrow> sprite" where
  "updateSize eng s =
     (case artboard s of
        None \<Rightarrow> s
      | Some a \<Rightarrow>
          if rive s \<and> renderer s then
            (let bounds = abd_bounds (ab_def a);
                 w = maxX bounds - minX bounds;
                 h = maxY bounds - minY bounds;
                 mw = (if maxWidth s \<noteq> 0 then maxWidth s else w);
                 mh = (if maxHeight s \<noteq> 0 then maxHeight s else h);
                 frame = \<lparr>minX = 0, minY = 0, maxX = mw, maxY = mh\<rparr>
             in s\<lparr>aligned := Some (computeAlignment eng (fit s) (align s) frame bounds),
                  canvas := map_option (\<lambda>c. c\<lparr>width := mw, height := mh\<rparr>) (canvas s),
                  trace := trace s @ [Renderer_align, Texture_update]\<rparr>)
          else s)"

subsection \<open>Loading an artboard\<close>

text \<open>
  The engine instantiates an artboard of the file under a fresh identity. A name the
  file does not have, or a file without artboards, gives \<^verbatim>\<open>null\<close>.
\<close>

definition instantiateArtboard :: "artboard_def \<Rightarrow> sprite \<Rightarrow> Artboard option \<times> sprite" where
  "instantiateArtboard d s =
     (Some \<lparr>ab_id = next_id s, ab_def = d\<rparr>,
      s\<lparr>next_id := Suc (next_id s), trace := trace s @ [Artboard_new (next_id s)]\<rparr>)"

definition artboardByName :: "File \<Rightarrow> string \<Rightarrow> sprite \<Rightarrow> Artboard option \<times> sprite" where
  "artboardByName f name s =
     (case find (\<lambda>d. abd_name d = name) f of
        None \<Rightarrow> (None, s)
      | Some d \<Rightarrow> instantiateArtboard d s)"

definition defaultArtboard :: "File \<Rightarrow> sprite \<Rightarrow> Artboard option \<times> sprite" where
  "defaultArtboard f s = (case f of [] \<Rightarrow> (None, s) | d # _ \<Rightarrow> instantiateArtboard d s)"

text \<open>
  \<^verbatim>\<open>loadArtboard(artboard)\<close>; the argument is a name or \<^verbatim>\<open>undefined\<close>, and the empty
  string is as falsy as \<^verbatim>\<open>undefined\<close>.
\<close>

definition loadArtboard :: "engine \<Rightarrow> string option \<Rightarrow> sprite \<Rightarrow> sprite" where
  "loadArtboard eng name s =
     (let s1 = (case artboard s of
                  None \<Rightarrow> s
                | Some a \<Rightarrow> s\<lparr>trace := trace s @ [Artboard_delete (ab_id a)]\<rparr>);
          s2 = (case riveFile s1 of
                  None \<Rightarrow> s1
                | Some f \<Rightarrow>
                    (case canvas s1 of
                       None \<Rightarrow> s1
                     | Some c \<Rightarrow>
                         (case (case name of
                                  None \<Rightarrow> defaultArtboard f s1
                                | Some n \<Rightarrow> if n = [] then defaultArtboard f s1
                                            else artboardByName f n s1) of
                            (ab, s') \<Rightarrow> s'\<lparr>artboard := ab, trace := trace s' @ [Texture_from]\<rparr>)))
      in updateSize eng s2)"

subsection \<open>State machines\<close>

text \<open>A name or a list of names; a missing argument defaults to the empty list.\<close>

datatype names = Name string | Names "string list"

definition stateMachineByName :: "Artboard \<Rightarrow> string \<Rightarrow> sm_def option" where
  "stateMachineByName a name = find (\<lambda>d. smd_name d = name) (abd_machines (ab_def a))"

definition stateMachineByIndex :: "Artboard \<Rightarrow> nat \<Rightarrow> sm_def option" where
  "stateMachineByIndex a i =
     (if i < length (abd_machines (ab_def a)) then Some (abd_machines (ab_def a) ! i) else None)"

text \<open>
  \<^verbatim>\<open>new StateMachineInstance(machine, artboard)\<close>: a fresh instance with one fresh input
  object per declared input. The constructor also accepts \<^verbatim>\<open>null\<close> for the definition
  and returns an instance, here one without inputs.
\<close>

definition newInput :: "input_def \<Rightarrow> SMIInput" where
  "newInput x = \<lparr>in_name = idef_name x, in_type = idef_type x, in_value = idef_value x\<rparr>"

definition newStateMachineInstance :: "sm_def option \<Rightarrow> sprite \<Rightarrow> StateMachineInstance \<times> sprite" where
  "newStateMachineInstance machine s =
     (let i = next_id s;
          inputs = (case machine of None \<Rightarrow> [] | Some d \<Rightarrow> smd_inputs d);
          n = length inputs;
          refs = [Suc i ..< Suc i + n]
      in (\<lparr>sm_id = i, sm_machine = map_option smd_name machine, sm_name = None,
           sm_inputs = refs, sm_changed = []\<rparr>,
          s\<lparr>heap := fold (\<lambda>(r, x) h. h(r := newInput x)) (zip refs inputs) (heap s),
            next_id := Suc i + n,
            trace := trace s @ [SM_new i]\<rparr>))"

text \<open>
  \<^verbatim>\<open>unloadStateMachine(name)\<close>: the filter keeps every machine whose \<^verbatim>\<open>name\<close> property is
  not the given name, and deletes the others.
\<close>

definition unloadStateMachine :: "string \<Rightarrow> sprite \<Rightarrow> sprite" where
  "unloadStateMachine name s =
     s\<lparr>stateMachines := filter (\<lambda>m. sm_name m \<noteq> Some name) (stateMachines s),
       trace := trace s @ map (\<lambda>m. SM_delete (sm_id m))
                  (filter (\<lambda>m. sm_name m = Some name) (stateMachines s))\<rparr>"

text \<open>
  \<^verbatim>\<open>initInputFields\<close>: the registry is cleared and refilled from the inputs of every
  active machine in order, a later input replacing an earlier one of the same name.
  The wrappers \<^verbatim>\<open>asBool\<close>, \<^verbatim>\<open>asTrigger\<close> and \<^verbatim>\<open>asNumber\<close> all stand for the input object
  itself. The method reads the kind tags off the engine; its only caller,
  \<^verbatim>\<open>loadStateMachine\<close>, has checked that the engine is there.
\<close>

definition initInputFields :: "sprite \<Rightarrow> sprite" where
  "initInputFields s =
     s\<lparr>inputFields :=
         fold (\<lambda>m reg. fold (\<lambda>r reg'. reg'(in_name (heap s r) \<mapsto> r)) (sm_inputs m) reg)
           (stateMachines s) Map.empty\<rparr>"

text \<open>
  The body of \<^verbatim>\<open>machines.map\<close> in \<^verbatim>\<open>loadStateMachine\<close>, name by name. For a name the
  artboard lacks, \<^verbatim>\<open>stateMachineByName\<close> gives \<^verbatim>\<open>null\<close>, which goes to the constructor.
\<close>

fun loadStateMachine_each :: "Artboard \<Rightarrow> string list \<Rightarrow> sprite \<Rightarrow> sprite" where
  "loadStateMachine_each a [] s = s"
| "loadStateMachine_each a (name # rest) s =
     (let machine = stateMachineByName a name;
          s1 = unloadStateMachine name s
      in case newStateMachineInstance machine s1 of
           (m, s2) \<Rightarrow> loadStateMachine_each a rest (s2\<lparr>stateMachines := stateMachines s2 @ [m]\<rparr>))"

text \<open>
  \<^verbatim>\<open>loadStateMachine(machines)\<close>. No path of it raises; it has the result type of
  \<^verbatim>\<open>playAnimation\<close>.
\<close>

definition loadStateMachine :: "names \<Rightarrow> sprite \<Rightarrow> (error \<times> sprite) + sprite" where
  "loadStateMachine machines s =
     (case artboard s of
        None \<Rightarrow> Inr s
      | Some a \<Rightarrow>
          if \<not> rive s then Inr s
          else
            (let ms = (case machines of
                         Name n \<Rightarrow> [n]
                       | Names ns \<Rightarrow>
                           if ns = []
                           then (case stateMachineByIndex a 0 of Some d \<Rightarrow> [smd_name d] | None \<Rightarrow> [])
                           else ns)
             in Inr (initInputFields (loadStateMachine_each a ms s))))"

subsection \<open>Timeline animations\<close>

definition animationByName :: "Artboard \<Rightarrow> string \<Rightarrow> string option" where
  "animationByName a name = find (\<lambda>n. n = name) (abd_animations (ab_def a))"

definition animationByIndex :: "Artboard \<Rightarrow> nat \<Rightarrow> string option" where
  "animationByIndex a i =
     (if i < length (abd_animations (ab_def a)) then Some (abd_animations (ab_def a) ! i) else None)"

text \<open>
  \<^verbatim>\<open>new LinearAnimationInstance(animation, artboard)\<close>; the constructor also accepts
  \<^verbatim>\<open>null\<close> for the animation and returns an instance.
\<close>

definition newLinearAnimationInstance ::
    "string option \<Rightarrow> sprite \<Rightarrow> LinearAnimationInstance \<times> sprite" where
  "newLinearAnimationInstance animation s =
     (\<lparr>an_id = next_id s, an_animation = animation, an_name = None\<rparr>,
      s\<lparr>next_id := Suc (next_id s), trace := trace s @ [Anim_new (next_id s)]\<rparr>)"

definition stopAnimation :: "string \<Rightarrow> sprite \<Rightarrow> sprite" where
  "stopAnimation name s =
     s\<lparr>animations := filter (\<lambda>a. an_name a \<noteq> Some name) (animations s),
       trace := trace s @ map (\<lambda>a. Anim_delete (an_id a))
                  (filter (\<lambda>a. an_name a = Some name) (animations s))\<rparr>"

text \<open>
  The body of \<^verbatim>\<open>animations.map\<close> in \<^verbatim>\<open>playAnimation\<close>. Reading a property of a missing
  artboard or of a missing engine raises a \<^verbatim>\<open>TypeError\<close>.
\<close>

fun playAnimation_each :: "string list \<Rightarrow> sprite \<Rightarrow> (error \<times> sprite) + sprite" where
  "playAnimation_each [] s = Inr s"
| "playAnimation_each (name # rest) s =
     (case artboard s of
        None \<Rightarrow> Inl (TypeError, s)
      | Some a \<Rightarrow>
          (let animation = animationByName a name;
               s1 = stopAnimation name s
           in if \<not> rive s1 then Inl (TypeError, s1)
              else case newLinearAnimationInstance animation s1 of
                     (i, s2) \<Rightarrow> playAnimation_each rest (s2\<lparr>animations := animations s2 @ [i]\<rparr>)))"

definition playAnimation :: "names \<Rightarrow> sprite \<Rightarrow> (error \<times> sprite) + sprite" where
  "playAnimation anims s =
     (if artboard s = None \<and> \<not> rive s then Inr s
      else
        (case anims of
           Name n \<Rightarrow> playAnimation_each [n] s
         | Names ns \<Rightarrow>
             if ns = [] \<and> stateMachines s = []
             then (case artboard s of
                     None \<Rightarrow> Inl (TypeError, s)
                   | Some a \<Rightarrow>
                       playAnimation_each (case animationByIndex a 0 of Some n \<Rightarrow> [n] | None \<Rightarrow> []) s)
             else playAnimation_each ns s))"

subsection \<open>The frame step\<close>

definition stateChangedCount :: "StateMachineInstance \<Rightarrow> nat" where
  "stateChangedCount m = length (sm_changed m)"

definition stateChangedNameByIndex :: "StateMachineInstance \<Rightarrow> nat \<Rightarrow> string" where
  "stateChangedNameByIndex m i = sm_changed m ! i"

text \<open>
  The body of \<^verbatim>\<open>stateMachines.map\<close> in \<^verbatim>\<open>advanceStateMachines\<close> for one machine: the
  machine as the engine leaves it, and the calls made. \<open>cb\<close> tells whether
  \<^verbatim>\<open>onStateChange\<close> is set.
\<close>

definition advanceStateMachine ::
    "engine \<Rightarrow> bool \<Rightarrow> real \<Rightarrow> StateMachineInstance \<Rightarrow> StateMachineInstance \<times> event list" where
  "advanceStateMachine eng cb elapsed m =
     (let m' = m\<lparr>sm_changed := changedStates eng elapsed m\<rparr>;
          states = map (stateChangedNameByIndex m') [0 ..< stateChangedCount m']
      in (m', SM_advance (sm_id m) elapsed #
               (if cb \<and> stateChangedCount m' \<noteq> 0
                then (if states \<noteq> [] then [OnStateChange states] else [])
                else [])))"

definition advanceStateMachines :: "engine \<Rightarrow> real \<Rightarrow> sprite \<Rightarrow> sprite" where
  "advanceStateMachines eng elapsed s =
     (let rs = map (advanceStateMachine eng (onStateChange s) elapsed) (stateMachines s)
      in s\<lparr>stateMachines := map fst rs, trace := trace s @ concat (map snd rs)\<rparr>)"

definition advanceAnimations :: "real \<Rightarrow> sprite \<Rightarrow> sprite" where
  "advanceAnimations elapsed s =
     s\<lparr>trace := trace s @
         concat (map (\<lambda>a. [Anim_advance (an_id a) elapsed, Anim_apply (an_id a) 1]) (animations s))\<rparr>"

text \<open>The calls of one frame step from \<^verbatim>\<open>artboard.advance\<close> to \<^verbatim>\<open>texture.update\<close>.\<close>

definition drawArtboard :: "Artboard \<Rightarrow> real \<Rightarrow> event list" where
  "drawArtboard a elapsed =
     [Artboard_advance (ab_id a) elapsed, Renderer_clear, Renderer_save, Artboard_draw (ab_id a),
      Renderer_restore, Renderer_flush, Texture_update]"

text \<open>
  \<^verbatim>\<open>renderLoop(time)\<close>, called by the host with its timestamp in milliseconds.
  \<open>elapsedAt time s\<close> names the elapsed time, in seconds, that a step at \<open>time\<close> computes
  in state \<open>s\<close>.
\<close>

definition elapsedAt :: "real \<Rightarrow> sprite \<Rightarrow> real" where
  "elapsedAt time s = (time - (if lastTime s = 0 then time else lastTime s)) / 1000"

definition renderLoop :: "engine \<Rightarrow> real \<Rightarrow> sprite \<Rightarrow> sprite" where
  "renderLoop eng time s =
     (let s0 = (if lastTime s = 0 then s\<lparr>lastTime := time\<rparr> else s);
          elapsedTime = (time - lastTime s0) / 1000;
          s1 = s0\<lparr>lastTime := time\<rparr>;
          s2 = (case artboard s1 of
                  None \<Rightarrow> s1
                | Some a \<Rightarrow>
                    if renderer s1 then
                      (let s3 = advanceStateMachines eng elapsedTime s1;
                           s4 = advanceAnimations elapsedTime s3
                       in s4\<lparr>trace := trace s4 @ drawArtboard a elapsedTime\<rparr>)
                    else s1)
      in if rive s2 \<and> enabled s2 then snd (requestAnimationFrame s2) else s2)"

text \<open>
  One frame of the host at timestamp \<open>t\<close>. With nothing queued the scheduler is not
  called. Otherwise it takes every request off the queue, starts its numbering again,
  and calls each callback, the render loop, with \<open>t\<close>.
\<close>

definition hostFrame :: "engine \<Rightarrow> real \<Rightarrow> sprite \<Rightarrow> sprite" where
  "hostFrame eng t s =
     (if pending s = [] then s
      else ((renderLoop eng t) ^^ length (pending s)) (s\<lparr>pending := [], requested := 0\<rparr>))"

fun hostFrames :: "engine \<Rightarrow> real list \<Rightarrow> sprite \<Rightarrow> sprite" where
  "hostFrames eng [] s = s"
| "hostFrames eng (t # ts) s = hostFrames eng ts (hostFrame eng t s)"

text \<open>The \<^verbatim>\<open>artboard.advance\<close> calls of a trace, and the callback invocations of a trace.\<close>

fun isArtboardAdvance :: "event \<Rightarrow> bool" where
  "isArtboardAdvance (Artboard_advance i e) = True"
| "isArtboardAdvance _ = False"

fun isOnStateChange :: "event \<Rightarrow> bool" where
  "isOnStateChange (OnStateChange ns) = True"
| "isOnStateChange _ = False"

text \<open>
  The part of a frame step a call belongs to: 0 for the state machines (and the
  callback they cause), 1 for the animations, 2 for the artboard's own advance, 3 for
  drawing; 4 for every call that is not part of a frame step.
\<close>

fun phase :: "event \<Rightarrow> nat" where
  "phase (SM_advance i e) = 0"
| "phase (OnStateChange ns) = 0"
| "phase (Anim_advance i e) = 1"
| "phase (Anim_apply i e) = 1"
| "phase (Artboard_advance i e) = 2"
| "phase Renderer_clear = 3"
| "phase Renderer_save = 3"
| "phase (Artboard_draw i) = 3"
| "phase Renderer_restore = 3"
| "phase Renderer_flush = 3"
| "phase Texture_update = 3"
| "phase _ = 4"

subsection \<open>Pointer events\<close>

text \<open>
  The three handlers that \<^verbatim>\<open>initEvents\<close> attaches; the host calls a handler only where
  one is attached.
\<close>

definition onpointerdown :: "(point \<Rightarrow> point) \<Rightarrow> point \<Rightarrow> sprite \<Rightarrow> sprite" where
  "onpointerdown toLocal e s =
     (case translatePoint toLocal s e of
        (px, py) \<Rightarrow> s\<lparr>trace := trace s @ map (\<lambda>m. SM_pointerDown (sm_id m) px py) (stateMachines s)\<rparr>)"

definition onpointerup :: "(point \<Rightarrow> point) \<Rightarrow> point \<Rightarrow> sprite \<Rightarrow> sprite" where
  "onpointerup toLocal e s =
     (case translatePoint toLocal s e of
        (px, py) \<Rightarrow> s\<lparr>trace := trace s @ map (\<lambda>m. SM_pointerUp (sm_id m) px py) (stateMachines s)\<rparr>)"

definition onpointermove :: "(point \<Rightarrow> point) \<Rightarrow> point \<Rightarrow> sprite \<Rightarrow> sprite" where
  "onpointermove toLocal e s =
     (case translatePoint toLocal s e of
        (px, py) \<Rightarrow> s\<lparr>trace := trace s @ map (\<lambda>m. SM_pointerMove (sm_id m) px py) (stateMachines s)\<rparr>)"

datatype pointer = PointerDown | PointerUp | PointerMove

definition pointerEvent :: "(point \<Rightarrow> point) \<Rightarrow> pointer \<Rightarrow> point \<Rightarrow> sprite \<Rightarrow> sprite" where
  "pointerEvent toLocal k e s =
     (if pointerHandlers s
      then (case k of
              PointerDown \<Rightarrow> onpointerdown toLocal e s
            | PointerUp \<Rightarrow> onpointerup toLocal e s
            | PointerMove \<Rightarrow> onpointermove toLocal e s)
      else s)"

subsection \<open>The input field registry\<close>

text \<open>\<^verbatim>\<open>this._rive?.SMIInput.trigger\<close>: the trigger tag, or \<^verbatim>\<open>undefined\<close> without an engine.\<close>

definition SMIInput_trigger :: "sprite \<Rightarrow> SMIInput_type option" where
  "SMIInput_trigger s = (if rive s then Some SMI_trigger else None)"

definition getInputValue :: "string \<Rightarrow> sprite \<Rightarrow> js_value option" where
  "getInputValue name s =
     (case inputFields s name of None \<Rightarrow> None | Some r \<Rightarrow> Some (in_value (heap s r)))"

definition setInputValue :: "string \<Rightarrow> js_value \<Rightarrow> sprite \<Rightarrow> sprite" where
  "setInputValue name v s =
     (case inputFields s name of
        None \<Rightarrow> s
      | Some r \<Rightarrow>
          if Some (in_type (heap s r)) \<noteq> SMIInput_trigger s
          then s\<lparr>heap := (heap s)(r := (heap s r)\<lparr>in_value := v\<rparr>)\<rparr>
          else s)"

definition fireTrigger :: "string \<Rightarrow> sprite \<Rightarrow> sprite" where
  "fireTrigger name s =
     (case inputFields s name of
        None \<Rightarrow> s
      | Some r \<Rightarrow>
          if Some (in_type (heap s r)) = SMIInput_trigger s
          then s\<lparr>trace := trace s @ [Input_fire r]\<rparr>
          else s)"

subsection \<open>Destruction\<close>

definition destroy :: "sprite \<Rightarrow> sprite" where
  "destroy s =
     (let s1 = disable (s\<lparr>trace := trace s @ [Sprite_destroy]\<rparr>)
      in s1\<lparr>trace := trace s1
            @ map (\<lambda>m. SM_delete (sm_id m)) (stateMachines s1)
            @ map (\<lambda>a. Anim_delete (an_id a)) (animations s1)
            @ (case artboard s1 of Some a \<Rightarrow> [Artboard_delete (ab_id a)] | None \<Rightarrow> [])
            @ (if renderer s1 then [Renderer_delete] else [])
            @ (case riveFile s1 of Some f \<Rightarrow> [File_delete] | None \<Rightarrow> [])\<rparr>)"

section \<open>A sample scene\<close>

text \<open>
  The state a call leaves behind, whether it returned or raised.
\<close>

definition sprite_of :: "(error \<times> sprite) + sprite \<Rightarrow> sprite" where
  "sprite_of r = (case r of Inl (e, s) \<Rightarrow> s | Inr s \<Rightarrow> s)"

text \<open>
  A file with one artboard of 100 by 50, two state machines and two animations; an
  engine whose machines report changed states on every advance and whose alignment
  stretches the bounds onto the frame (fit Fill), whatever the fit asked for.
\<close>

definition demo_machine :: sm_def where
  "demo_machine =
     \<lparr>smd_name = ''Idle'',
      smd_inputs = [\<lparr>idef_name = ''Active'', idef_type = SMI_bool, idef_value = JBool False\<rparr>,
                    \<lparr>idef_name = ''Jump'', idef_type = SMI_trigger, idef_value = JBool False\<rparr>]\<rparr>"

definition demo_artboard :: artboard_def where
  "demo_artboard =
     \<lparr>abd_name = ''Main'',
      abd_bounds = \<lparr>minX = 10, minY = 0, maxX = 110, maxY = 50\<rparr>,
      abd_machines = [demo_machine, \<lparr>smd_name = ''Blink'', smd_inputs = []\<rparr>],
      abd_animations = [''walk'', ''wave'']\<rparr>"

definition demo_file :: File where
  "demo_file = [demo_artboard]"

definition demo_engine :: engine where
  "demo_engine =
     \<lparr>changedStates =
        (\<lambda>el m. if sm_machine m = Some ''Idle'' then [''rest''] else [''open'', ''shut'']),
      computeAlignment = (\<lambda>f al frame b.
         \<lparr>xx = (maxX frame - minX frame) / (maxX b - minX b),
          yy = (maxY frame - minY frame) / (maxY b - minY b),
          tx = minX frame - minX b * ((maxX frame - minX frame) / (maxX b - minX b)),
          ty = minY frame - minY b * ((maxY frame - minY frame) / (maxY b - minY b))\<rparr>)\<rparr>"

text \<open>
  The states of a session: constructed interactive with a callback, the file loaded
  and the maximal size set to 200 by 200; the default artboard loaded; both machines loaded; one animation playing;
  enabled and one frame run at 1000 ms; disabled and two more frames; enabled again
  and a frame at 5000 ms. Then the playing sprite as the constructor leaves it without
  \<^verbatim>\<open>autoPlay\<close>, with its one request for a first frame, enabled from \<^verbatim>\<open>onReady\<close> and
  run for the frame at 1000 ms. And the state after asking for an artboard the file
  lacks.
\<close>

definition demo_init :: sprite where
  "demo_init = (initRive demo_file (construct False True True))\<lparr>maxWidth := 200, maxHeight := 200\<rparr>"

definition demo_ready :: sprite where
  "demo_ready = loadArtboard demo_engine None demo_init"

definition demo_machines :: sprite where
  "demo_machines = sprite_of (loadStateMachine (Names [''Idle'', ''Blink'']) demo_ready)"

definition demo_playing :: sprite where
  "demo_playing = sprite_of (playAnimation (Name ''walk'') demo_machines)"

definition demo_running :: sprite where
  "demo_running = hostFrame demo_engine 1000 (enable demo_playing)"

definition demo_stopped :: sprite where
  "demo_stopped = hostFrames demo_engine [1016, 1032] (disable demo_running)"

definition demo_resumed :: sprite where
  "demo_resumed = hostFrame demo_engine 5000 (enable demo_stopped)"

definition demo_manual :: sprite where
  "demo_manual = hostFrame demo_engine 1000 (enable (snd (requestAnimationFrame demo_playing)))"

definition demo_unloaded :: sprite where
  "demo_unloaded = loadArtboard demo_engine (Some ''Missing'') demo_init"

section \<open>Evaluating the sample scene\<close>

lemmas model_defs =
  new_sprite_def initEvents_def construct_def createCanvas_def initRive_def
  requestAnimationFrame_def cancelAnimationFrame_def enable_def disable_def updateSize_def
  instantiateArtboard_def artboardByName_def defaultArtboard_def loadArtboard_def
  stateMachineByName_def stateMachineByIndex_def newInput_def newStateMachineInstance_def
  unloadStateMachine_def initInputFields_def loadStateMachine_def animationByName_def
  animationByIndex_def newLinearAnimationInstance_def stopAnimation_def playAnimation_def
  sprite_of_def

lemmas frame_defs =
  renderLoop_def advanceStateMachines_def advanceStateMachine_def advanceAnimations_def
  drawArtboard_def stateChangedCount_def stateChangedNameByIndex_def hostFrame_def
  requestAnimationFrame_def cancelAnimationFrame_def enable_def disable_def

lemmas demo_defs =
  demo_machine_def demo_artboard_def demo_file_def demo_engine_def demo_init_def demo_ready_def
  demo_machines_def demo_playing_def

lemma demo_init_fields:
  "artboard demo_init = None" "rive demo_init" "renderer demo_init"
  "riveFile demo_init = Some demo_file" "canvas demo_init = Some \<lparr>width = 100, height = 100\<rparr>"
  "stateMachines demo_init = []" "animations demo_init = []" "trace demo_init = []"
  "pointerHandlers demo_init" "aligned demo_init = None" "onStateChange demo_init"
  by (simp_all add: demo_init_def model_defs)

lemma construct_fields:
  "artboard (construct dbg cb i) = None" "riveFile (construct dbg cb i) = None"
  "rive (construct dbg cb i) = False"
  by (simp_all add: model_defs)

lemma demo_ready_fields:
  "artboard demo_ready = Some \<lparr>ab_id = 0, ab_def = demo_artboard\<rparr>"
  "rive demo_ready" "renderer demo_ready" "stateMachines demo_ready = []"
  "animations demo_ready = []" "next_id demo_ready = 1"
  "aligned demo_ready = Some \<lparr>xx = 2, yy = 4, tx = - 20, ty = 0\<rparr>"
  "trace demo_ready = [Artboard_new 0, Texture_from, Renderer_align, Texture_update]"
  by (simp_all add: demo_ready_def demo_init_def demo_file_def demo_artboard_def demo_engine_def
      model_defs Let_def)

lemma demo_machines_fields:
  "artboard demo_machines = Some \<lparr>ab_id = 0, ab_def = demo_artboard\<rparr>"
  "rive demo_machines" "renderer demo_machines" "onStateChange demo_machines"
  "pointerHandlers demo_machines"
  "stateMachines demo_machines =
     [\<lparr>sm_id = 1, sm_machine = Some ''Idle'', sm_name = None, sm_inputs = [2, 3], sm_changed = []\<rparr>,
      \<lparr>sm_id = 4, sm_machine = Some ''Blink'', sm_name = None, sm_inputs = [], sm_changed = []\<rparr>]"
  "animations demo_machines = []"
  "inputFields demo_machines ''Active'' = Some 2"
  "inputFields demo_machines ''Jump'' = Some 3"
  "inputFields demo_machines ''Speed'' = None"
  "in_type (heap demo_machines 2) = SMI_bool"
  "in_type (heap demo_machines 3) = SMI_trigger"
  "trace demo_machines =
     [Artboard_new 0, Texture_from, Renderer_align, Texture_update, SM_new 1, SM_new 4]"
  by (simp_all add: demo_defs model_defs Let_def)

lemma demo_playing_fields:
  "artboard demo_playing = Some \<lparr>ab_id = 0, ab_def = demo_artboard\<rparr>"
  "rive demo_playing" "renderer demo_playing" "onStateChange demo_playing"
  "enabled demo_playing = False" "animFrame demo_playing = 0" "pending demo_playing = []"
  "requested demo_playing = 0" "lastTime demo_playing = 0" "next_id demo_playing = 6"
  "riveFile demo_playing = Some demo_file"
  "canvas demo_playing = Some \<lparr>width = 200, height = 200\<rparr>"
  "stateMachines demo_playing =
     [\<lparr>sm_id = 1, sm_machine = Some ''Idle'', sm_name = None, sm_inputs = [2, 3], sm_changed = []\<rparr>,
      \<lparr>sm_id = 4, sm_machine = Some ''Blink'', sm_name = None, sm_inputs = [], sm_changed = []\<rparr>]"
  "animations demo_playing = [\<lparr>an_id = 5, an_animation = Some ''walk'', an_name = None\<rparr>]"
  "trace demo_playing =
     [Artboard_new 0, Texture_from, Renderer_align, Texture_update, SM_new 1, SM_new 4, Anim_new 5]"
  by (simp_all add: demo_defs model_defs Let_def)

lemma demo_engine_changed:
  "changedStates demo_engine el m =
     (if sm_machine m = Some ''Idle'' then [''rest''] else [''open'', ''shut''])"
  by (simp add: demo_engine_def)

lemma demo_running_fields:
  "artboard demo_running = Some \<lparr>ab_id = 0, ab_def = demo_artboard\<rparr>"
  "rive demo_running" "renderer demo_running" "onStateChange demo_running"
  "enabled demo_running" "animFrame demo_running = 1" "pending demo_running = [1]"
  "requested demo_running = 1" "lastTime demo_running = 1000"
  "stateMachines demo_running =
     [\<lparr>sm_id = 1, sm_machine = Some ''Idle'', sm_name = None, sm_inputs = [2, 3],
       sm_changed = [''rest'']\<rparr>,
      \<lparr>sm_id = 4, sm_machine = Some ''Blink'', sm_name = None, sm_inputs = [],
       sm_changed = [''open'', ''shut'']\<rparr>]"
  "animations demo_running = [\<lparr>an_id = 5, an_animation = Some ''walk'', an_name = None\<rparr>]"
  "trace demo_running =
     trace demo_playing @
     [SM_advance 1 0, OnStateChange [''rest''], SM_advance 4 0, OnStateChange [''open'', ''shut''],
      Anim_advance 5 0, Anim_apply 5 1, Artboard_advance 0 0, Renderer_clear, Renderer_save,
      Artboard_draw 0, Renderer_restore, Renderer_flush, Texture_update]"
  by (simp_all add: demo_running_def frame_defs demo_playing_fields demo_engine_def Let_def)

lemma demo_stopped_fields:
  "artboard demo_stopped = Some \<lparr>ab_id = 0, ab_def = demo_artboard\<rparr>"
  "rive demo_stopped" "renderer demo_stopped"
  "enabled demo_stopped = False" "animFrame demo_stopped = 0" "pending demo_stopped = []"
  "requested demo_stopped = 1" "lastTime demo_stopped = 1000"
  "filter isArtboardAdvance (trace demo_stopped) = [Artboard_advance 0 0]"
  by (simp_all add: demo_stopped_def frame_defs demo_running_fields demo_playing_fields
      demo_engine_def Let_def)

lemma demo_manual_fields:
  "rive demo_manual" "enabled demo_manual" "animFrame demo_manual = 2"
  "pending demo_manual = [1, 2]" "lastTime demo_manual = 1000"
  "artboard demo_manual = Some \<lparr>ab_id = 0, ab_def = demo_artboard\<rparr>" "renderer demo_manual"
  "filter isArtboardAdvance (trace demo_manual) = [Artboard_advance 0 0, Artboard_advance 0 0]"
  by (simp_all add: demo_manual_def frame_defs demo_playing_fields demo_engine_def Let_def
      numeral_2_eq_2)

section \<open>The frame step\<close>

lemma states_collected:
  "map (stateChangedNameByIndex m) [0 ..< stateChangedCount m] = sm_changed m"
proof -
  have "stateChangedNameByIndex m = (!) (sm_changed m)"
    by (simp add: fun_eq_iff stateChangedNameByIndex_def)
  then show ?thesis
    by (simp add: stateChangedCount_def map_nth)
qed

lemma advanceStateMachine_calls:
  "snd (advanceStateMachine eng cb el m) =
     SM_advance (sm_id m) el #
       (if cb \<and> changedStates eng el m \<noteq> [] then [OnStateChange (changedStates eng el m)] else [])"
  by (simp add: advanceStateMachine_def Let_def states_collected) (simp add: stateChangedCount_def)

lemma renderLoop_trace:
  assumes "artboard s = Some a" and "renderer s"
  shows "trace (renderLoop eng t s) =
           trace s
           @ concat (map (\<lambda>m. snd (advanceStateMachine eng (onStateChange s) (elapsedAt t s) m))
               (stateMachines s))
           @ concat (map (\<lambda>i. [Anim_advance (an_id i) (elapsedAt t s), Anim_apply (an_id i) 1])
               (animations s))
           @ drawArtboard a (elapsedAt t s)"
  using assms
  by (simp add: renderLoop_def Let_def advanceStateMachines_def advanceAnimations_def
      requestAnimationFrame_def elapsedAt_def comp_def)

lemma machine_calls_phase:
  "e \<in> set (concat (map (\<lambda>m. snd (advanceStateMachine eng cb el m)) ms)) \<Longrightarrow> phase e = 0"
  by (auto simp: advanceStateMachine_calls split: if_splits)

lemma animation_calls_phase:
  "e \<in> set (concat (map (\<lambda>i. [Anim_advance (an_id i) el, Anim_apply (an_id i) w]) is)) \<Longrightarrow> phase e = 1"
  by auto

lemma sorted_constant: "\<forall>x\<in>set xs. x = (c::nat) \<Longrightarrow> sorted xs"
  by (induction xs) auto

lemma machine_calls_no_artboard_advance:
  "filter isArtboardAdvance (concat (map (\<lambda>m. snd (advanceStateMachine eng cb el m)) ms)) = []"
  by (induction ms) (simp_all add: advanceStateMachine_calls)

lemma animation_calls_no_artboard_advance:
  "filter isArtboardAdvance
     (concat (map (\<lambda>i. [Anim_advance (an_id i) el, Anim_apply (an_id i) w]) is)) = []"
  by (induction "is") simp_all

lemma machine_calls_callbacks:
  "filter isOnStateChange (concat (map (\<lambda>m. snd (advanceStateMachine eng True el m)) ms)) =
     map OnStateChange (filter (\<lambda>ns. ns \<noteq> []) (map (changedStates eng el) ms))"
  by (induction ms) (simp_all add: advanceStateMachine_calls)

lemma animation_calls_no_callback:
  "filter isOnStateChange
     (concat (map (\<lambda>i. [Anim_advance (an_id i) el, Anim_apply (an_id i) w]) is)) = []"
  by (induction "is") simp_all

text \<open>
  Claim C5. In a frame step with a loaded artboard (and the renderer that every loaded
  artboard comes with), the calls are made in this order: every active state machine
  advances (each followed by the callback it causes), then every active animation
  advances and applies, then the artboard advances, and only then the renderer
  clears, draws and flushes and the texture is updated. In terms of phases, the calls
  of the step are sorted.
\<close>

theorem frame_step_order:
  assumes "artboard s = Some a" and "renderer s"
  shows "trace (renderLoop eng t s) =
           trace s
           @ concat (map (\<lambda>m. SM_advance (sm_id m) (elapsedAt t s) #
                 (if onStateChange s \<and> changedStates eng (elapsedAt t s) m \<noteq> []
                  then [OnStateChange (changedStates eng (elapsedAt t s) m)] else []))
               (stateMachines s))
           @ concat (map (\<lambda>i. [Anim_advance (an_id i) (elapsedAt t s), Anim_apply (an_id i) 1])
               (animations s))
           @ [Artboard_advance (ab_id a) (elapsedAt t s)]
           @ [Renderer_clear, Renderer_save, Artboard_draw (ab_id a), Renderer_restore,
              Renderer_flush, Texture_update]
       \<and> sorted (map phase (drop (length (trace s)) (trace (renderLoop eng t s))))"
proof -
  let ?el = "elapsedAt t s"
  let ?sm = "concat (map (\<lambda>m. snd (advanceStateMachine eng (onStateChange s) ?el m)) (stateMachines s))"
  let ?an = "concat (map (\<lambda>i. [Anim_advance (an_id i) ?el, Anim_apply (an_id i) 1]) (animations s))"
  have tr: "trace (renderLoop eng t s) = trace s @ ?sm @ ?an @ drawArtboard a ?el"
    using assms by (rule renderLoop_trace)
  have sm: "\<forall>x\<in>set (map phase ?sm). x = 0"
    using machine_calls_phase by fastforce
  have an: "\<forall>x\<in>set (map phase ?an). x = 1"
    using animation_calls_phase by fastforce
  have "sorted (map phase ?sm @ map phase ?an @ map phase (drawArtboard a ?el))"
    using sm an sorted_constant [OF sm] sorted_constant [OF an]
    by (simp add: sorted_append drawArtboard_def)
  then have "sorted (map phase (drop (length (trace s)) (trace (renderLoop eng t s))))"
    by (simp add: tr)
  moreover have "trace (renderLoop eng t s) =
      trace s
      @ concat (map (\<lambda>m. SM_advance (sm_id m) ?el #
            (if onStateChange s \<and> changedStates eng ?el m \<noteq> []
             then [OnStateChange (changedStates eng ?el m)] else []))
          (stateMachines s))
      @ ?an
      @ [Artboard_advance (ab_id a) ?el]
      @ [Renderer_clear, Renderer_save, Artboard_draw (ab_id a), Renderer_restore,
         Renderer_flush, Texture_update]"
    by (simp add: tr advanceStateMachine_calls drawArtboard_def)
  ultimately show ?thesis by blast
qed

theorem frame_step_order_witness:
  "artboard demo_running = Some \<lparr>ab_id = 0, ab_def = demo_artboard\<rparr> \<and> renderer demo_running
   \<and> trace (renderLoop demo_engine 1016 demo_running) =
       trace demo_running @
       [SM_advance 1 (2 / 125), OnStateChange [''rest''],
        SM_advance 4 (2 / 125), OnStateChange [''open'', ''shut''],
        Anim_advance 5 (2 / 125), Anim_apply 5 1,
        Artboard_advance 0 (2 / 125),
        Renderer_clear, Renderer_save, Artboard_draw 0, Renderer_restore, Renderer_flush,
        Texture_update]"
  using frame_step_order [of demo_running "\<lparr>ab_id = 0, ab_def = demo_artboard\<rparr>" demo_engine 1016]
  by (simp add: demo_running_fields demo_engine_changed elapsedAt_def)

text \<open>
  Claim C2, as amended. In a frame step with the callback set, the callback is invoked
  once for every active state machine that reports changed states after its advance,
  in the order of the machines, each time with the names that this machine reports;
  so it is invoked exactly once in the step when exactly one machine reports changes.
\<close>

theorem state_change_per_machine:
  assumes "artboard s = Some a" and "renderer s" and "onStateChange s"
  shows "filter isOnStateChange (drop (length (trace s)) (trace (renderLoop eng t s))) =
           map OnStateChange
             (filter (\<lambda>ns. ns \<noteq> []) (map (changedStates eng (elapsedAt t s)) (stateMachines s)))"
proof -
  have "trace (renderLoop eng t s) =
          trace s
          @ concat (map (\<lambda>m. snd (advanceStateMachine eng True (elapsedAt t s) m)) (stateMachines s))
          @ concat (map (\<lambda>i. [Anim_advance (an_id i) (elapsedAt t s), Anim_apply (an_id i) 1])
              (animations s))
          @ drawArtboard a (elapsedAt t s)"
    using renderLoop_trace [OF assms(1,2), of eng t] assms(3) by simp
  then show ?thesis
    by (simp add: machine_calls_callbacks animation_calls_no_callback drawArtboard_def)
qed

theorem state_change_per_machine_witness:
  "artboard demo_running = Some \<lparr>ab_id = 0, ab_def = demo_artboard\<rparr> \<and> renderer demo_running
   \<and> onStateChange demo_running
   \<and> filter isOnStateChange
        (drop (length (trace demo_running)) (trace (renderLoop demo_engine 1016 demo_running))) =
      [OnStateChange [''rest''], OnStateChange [''open'', ''shut'']]"
  using state_change_per_machine
    [of demo_running "\<lparr>ab_id = 0, ab_def = demo_artboard\<rparr>" demo_engine 1016]
  by (simp add: demo_running_fields demo_engine_changed)

text \<open>
  The claim as stated fails: with two machines that both report changes, one frame
  step invokes the callback twice, once per machine, and no call carries the
  collected list.
\<close>

theorem state_change_once_counterexample:
  "filter isOnStateChange (trace demo_playing) = []
   \<and> filter isOnStateChange (trace (renderLoop demo_engine 1000 demo_playing)) =
       [OnStateChange [''rest''], OnStateChange [''open'', ''shut'']]"
  by (simp add: frame_defs demo_playing_fields demo_engine_changed Let_def)

section \<open>Pointer translation\<close>

lemma translatePoint_identity:
  "aligned s = None \<Longrightarrow> translatePoint toLocal s g = toLocal g"
  by (cases "toLocal g") (simp add: translatePoint_def identityAlignment_def)

text \<open>
  Claim C10. On a sprite with pointer handlers attached and no alignment cached, the
  translation is the identity, and each of the three pointer events forwards the
  sprite-local point unchanged to every active state machine, in order.
\<close>

theorem pointer_identity_fallback:
  assumes "pointerHandlers s" and "aligned s = None"
  shows "translatePoint toLocal s g = toLocal g
       \<and> trace (pointerEvent toLocal PointerDown g s) =
           trace s @ map (\<lambda>m. SM_pointerDown (sm_id m) (fst (toLocal g)) (snd (toLocal g)))
                       (stateMachines s)
       \<and> trace (pointerEvent toLocal PointerUp g s) =
           trace s @ map (\<lambda>m. SM_pointerUp (sm_id m) (fst (toLocal g)) (snd (toLocal g)))
                       (stateMachines s)
       \<and> trace (pointerEvent toLocal PointerMove g s) =
           trace s @ map (\<lambda>m. SM_pointerMove (sm_id m) (fst (toLocal g)) (snd (toLocal g)))
                       (stateMachines s)"
  using assms
  by (cases "toLocal g")
     (simp add: translatePoint_identity pointerEvent_def onpointerdown_def onpointerup_def
        onpointermove_def)

text \<open>
  The witness takes the sprite right after construction and loading of the file, and
  the sprite with both machines loaded whose cached alignment has been dropped.
\<close>

theorem pointer_identity_fallback_witness:
  "pointerHandlers demo_init \<and> aligned demo_init = None
   \<and> translatePoint (\<lambda>p. p) demo_init (30, 60) = (30, 60)
   \<and> trace (pointerEvent (\<lambda>p. p) PointerDown (30, 60) demo_init) = trace demo_init
   \<and> trace (pointerEvent (\<lambda>p. p) PointerMove (30, 60) (demo_machines\<lparr>aligned := None\<rparr>)) =
       trace demo_machines @ [SM_pointerMove 1 30 60, SM_pointerMove 4 30 60]"
  using pointer_identity_fallback [of demo_init "\<lambda>p. p" "(30, 60)"]
    pointer_identity_fallback [of "demo_machines\<lparr>aligned := None\<rparr>" "\<lambda>p. p" "(30, 60)"]
  by (simp add: demo_init_fields demo_machines_fields)

section \<open>The input field registry\<close>

text \<open>
  Claim C9. With the engine loaded (no registry entry exists without it),
  \<^verbatim>\<open>setInputValue\<close> writes the value into the input registered under the name exactly
  when there is one and it is not a trigger, and \<^verbatim>\<open>fireTrigger\<close> fires the input
  registered under the name exactly when there is one and it is a trigger; in every
  other case the call changes nothing.
\<close>

theorem registry_set_and_fire:
  assumes "rive s"
  shows "(\<forall>r. inputFields s name = Some r \<and> in_type (heap s r) \<noteq> SMI_trigger \<longrightarrow>
            setInputValue name v s = s\<lparr>heap := (heap s)(r := (heap s r)\<lparr>in_value := v\<rparr>)\<rparr>)
       \<and> ((\<nexists>r. inputFields s name = Some r \<and> in_type (heap s r) \<noteq> SMI_trigger) \<longrightarrow>
            setInputValue name v s = s)
       \<and> (\<forall>r. inputFields s name = Some r \<and> in_type (heap s r) = SMI_trigger \<longrightarrow>
            fireTrigger name s = s\<lparr>trace := trace s @ [Input_fire r]\<rparr>)
       \<and> ((\<nexists>r. inputFields s name = Some r \<and> in_type (heap s r) = SMI_trigger) \<longrightarrow>
            fireTrigger name s = s)"
  using assms
  by (simp add: setInputValue_def fireTrigger_def SMIInput_trigger_def split: option.splits)

theorem registry_set_and_fire_witness:
  "rive demo_machines
   \<and> setInputValue ''Active'' (JBool True) demo_machines =
       demo_machines\<lparr>heap := (heap demo_machines)(2 := (heap demo_machines 2)\<lparr>in_value := JBool True\<rparr>)\<rparr>
   \<and> fireTrigger ''Active'' demo_machines = demo_machines
   \<and> setInputValue ''Jump'' (JBool True) demo_machines = demo_machines
   \<and> fireTrigger ''Jump'' demo_machines = demo_machines\<lparr>trace := trace demo_machines @ [Input_fire 3]\<rparr>
   \<and> setInputValue ''Speed'' (JNum 1) demo_machines = demo_machines
   \<and> fireTrigger ''Speed'' demo_machines = demo_machines"
  using registry_set_and_fire [of demo_machines "''Active''" "JBool True"]
    registry_set_and_fire [of demo_machines "''Jump''" "JBool True"]
    registry_set_and_fire [of demo_machines "''Speed''" "JNum 1"]
  by (simp add: demo_machines_fields)

lemma getInputValue_after_set:
  "rive s \<Longrightarrow> inputFields s name = Some r \<Longrightarrow> in_type (heap s r) \<noteq> SMI_trigger \<Longrightarrow>
   getInputValue name (setInputValue name v s) = Some v"
  by (simp add: getInputValue_def setInputValue_def SMIInput_trigger_def)

section \<open>Enabling, disabling and the host's frames\<close>

lemma renderLoop_disabled_pending:
  "\<not> enabled s \<Longrightarrow> pending (renderLoop eng t s) = pending s"
  by (simp add: renderLoop_def Let_def advanceStateMachines_def advanceAnimations_def
      split: option.splits)

lemma renderLoop_scheduling:
  "rive (renderLoop eng t s) = rive s" "enabled (renderLoop eng t s) = enabled s"
  "animFrame (renderLoop eng t s) = animFrame s"
  "rive s \<Longrightarrow> enabled s \<Longrightarrow> pending (renderLoop eng t s) = pending s @ [Suc (requested s)]"
  by (simp_all add: renderLoop_def Let_def advanceStateMachines_def advanceAnimations_def
      requestAnimationFrame_def split: option.splits)

lemma hostFrame_idle: "pending s = [] \<Longrightarrow> hostFrame eng t s = s"
  by (simp add: hostFrame_def)

lemma hostFrames_idle: "pending s = [] \<Longrightarrow> hostFrames eng ts s = s"
  by (induction ts) (simp_all add: hostFrame_idle)

text \<open>
  A sprite whose only queued request is the first of its frame and is the one it has
  stored stays so from frame to frame: the render loop asks again as the first of the
  next frame and gets the same handle.
\<close>

lemma hostFrame_keeps_handle:
  assumes "rive s" and "enabled s" and "animFrame s = Suc 0" and "pending s = [Suc 0]"
  shows "rive (hostFrame eng t s) \<and> enabled (hostFrame eng t s)
       \<and> animFrame (hostFrame eng t s) = Suc 0 \<and> pending (hostFrame eng t s) = [Suc 0]"
  using assms by (simp add: hostFrame_def renderLoop_scheduling)

lemma hostFrames_keep_handle:
  "rive s \<Longrightarrow> enabled s \<Longrightarrow> animFrame s = Suc 0 \<Longrightarrow> pending s = [Suc 0] \<Longrightarrow>
   rive (hostFrames eng ts s) \<and> animFrame (hostFrames eng ts s) = Suc 0
   \<and> pending (hostFrames eng ts s) = [Suc 0]"
proof (induction ts arbitrary: s)
  case Nil
  then show ?case by simp
next
  case (Cons t ts)
  have "rive (hostFrame eng t s) \<and> enabled (hostFrame eng t s)
      \<and> animFrame (hostFrame eng t s) = Suc 0 \<and> pending (hostFrame eng t s) = [Suc 0]"
    using Cons.prems by (rule hostFrame_keeps_handle)
  then show ?case
    using Cons.IH [of "hostFrame eng t s"] by simp
qed

lemma enable_first_handle:
  "rive s \<Longrightarrow> requested s = 0 \<Longrightarrow> pending s = [] \<Longrightarrow> animFrame s = 0 \<Longrightarrow>
   rive (enable s) \<and> enabled (enable s) \<and> animFrame (enable s) = Suc 0
   \<and> pending (enable s) = [Suc 0]"
  by (simp add: enable_def requestAnimationFrame_def Let_def)

lemma disable_cancels:
  "pending s = [] \<or> (rive s \<and> animFrame s \<noteq> 0 \<and> pending s = [animFrame s]) \<Longrightarrow>
   pending (disable s) = []"
  by (auto simp: disable_def cancelAnimationFrame_def Let_def)

lemma disable_trace: "trace (disable s) = trace s"
  by (simp add: disable_def cancelAnimationFrame_def Let_def)

lemma enable_first_frame:
  assumes "rive s" and "pending s = []" and "animFrame s = 0"
    and "artboard s = Some a" and "renderer s"
  shows "filter isArtboardAdvance (trace (hostFrame eng t (enable s))) =
           filter isArtboardAdvance (trace s) @ [Artboard_advance (ab_id a) (elapsedAt t s)]"
proof -
  let ?s = "s\<lparr>enabled := True, animFrame := Suc (requested s), pending := [], requested := 0\<rparr>"
  have "hostFrame eng t (enable s) = renderLoop eng t ?s"
    using assms(1-3) by (simp add: hostFrame_def enable_def requestAnimationFrame_def Let_def)
  moreover have "artboard ?s = Some a" and "renderer ?s"
    using assms(4,5) by simp_all
  moreover have "elapsedAt t ?s = elapsedAt t s"
    by (simp add: elapsedAt_def)
  ultimately show ?thesis
    using renderLoop_trace [of ?s a eng t]
    by (simp add: machine_calls_no_artboard_advance animation_calls_no_artboard_advance
        drawArtboard_def)
qed

text \<open>
  Claim C4, as amended. A frame step that runs while the sprite is disabled does not
  schedule another one. When \<^verbatim>\<open>disable()\<close> finds nothing queued, or only the request
  whose handle the sprite has stored, then no call at all is made (no artboard advance
  in particular) during any number of later host frames. That is the case after
  \<^verbatim>\<open>enable()\<close> on a sprite with no request made or queued before, followed by any
  number of host frames. After \<^verbatim>\<open>enable()\<close> on a sprite with nothing queued, the first
  host frame advances the artboard by the time since the last step that ran,
  \<open>(t - lastTime) / 1000\<close>, which is 0 only when no step has run yet (or at the same
  timestamp).
\<close>

theorem disable_then_enable:
  "(\<not> enabled s \<longrightarrow> pending (renderLoop eng t s) = pending s)
   \<and> (pending s = [] \<or> (rive s \<and> animFrame s \<noteq> 0 \<and> pending s = [animFrame s]) \<longrightarrow>
        hostFrames eng ts (disable s) = disable s \<and> trace (disable s) = trace s)
   \<and> (rive s \<and> requested s = 0 \<and> pending s = [] \<and> animFrame s = 0 \<longrightarrow>
        hostFrames eng ts (disable (hostFrames eng us (enable s))) =
          disable (hostFrames eng us (enable s))
        \<and> trace (disable (hostFrames eng us (enable s))) = trace (hostFrames eng us (enable s)))
   \<and> (rive s \<and> pending s = [] \<and> animFrame s = 0 \<and> artboard s = Some a \<and> renderer s \<longrightarrow>
        filter isArtboardAdvance (trace (hostFrame eng t (enable s))) =
          filter isArtboardAdvance (trace s) @
          [Artboard_advance (ab_id a) ((t - (if lastTime s = 0 then t else lastTime s)) / 1000)])"
proof (intro conjI impI)
  assume "\<not> enabled s"
  then show "pending (renderLoop eng t s) = pending s"
    by (rule renderLoop_disabled_pending)
next
  assume "pending s = [] \<or> (rive s \<and> animFrame s \<noteq> 0 \<and> pending s = [animFrame s])"
  then have "pending (disable s) = []"
    by (rule disable_cancels)
  then show "hostFrames eng ts (disable s) = disable s"
    by (rule hostFrames_idle)
next
  show "trace (disable s) = trace s"
    by (rule disable_trace)
next
  assume "rive s \<and> requested s = 0 \<and> pending s = [] \<and> animFrame s = 0"
  then have "rive (enable s) \<and> enabled (enable s) \<and> animFrame (enable s) = Suc 0
      \<and> pending (enable s) = [Suc 0]"
    by (simp add: enable_first_handle)
  then have "rive (hostFrames eng us (enable s)) \<and> animFrame (hostFrames eng us (enable s)) = Suc 0
      \<and> pending (hostFrames eng us (enable s)) = [Suc 0]"
    by (simp add: hostFrames_keep_handle)
  then have "pending (disable (hostFrames eng us (enable s))) = []"
    by (simp add: disable_cancels)
  then show "hostFrames eng ts (disable (hostFrames eng us (enable s))) =
      disable (hostFrames eng us (enable s))"
    by (rule hostFrames_idle)
next
  show "trace (disable (hostFrames eng us (enable s))) = trace (hostFrames eng us (enable s))"
    by (rule disable_trace)
next
  assume "rive s \<and> pending s = [] \<and> animFrame s = 0 \<and> artboard s = Some a \<and> renderer s"
  then show "filter isArtboardAdvance (trace (hostFrame eng t (enable s))) =
      filter isArtboardAdvance (trace s) @
      [Artboard_advance (ab_id a) ((t - (if lastTime s = 0 then t else lastTime s)) / 1000)]"
    using enable_first_frame [of s a eng t] by (simp add: elapsedAt_def)
qed

text \<open>
  The witness, on the session of the sample scene. A step at 1016 ms on the sprite
  disabled after its frame at 1000 ms leaves the queue as it was. That sprite, enabled
  from the start and disabled after its frame at 1000 ms or after three frames, makes
  no call during the host frames that follow. And stopped since its step at 1000 ms
  and enabled again, it advances by 4 s in its first frame at 5000 ms.
\<close>

theorem disable_then_enable_witness:
  "pending (renderLoop demo_engine 1016 (disable demo_running)) = pending (disable demo_running)
   \<and> hostFrames demo_engine [1016, 1032, 1048] (disable demo_running) = disable demo_running
   \<and> trace (disable demo_running) = trace demo_running
   \<and> hostFrames demo_engine [1064, 1080]
        (disable (hostFrames demo_engine [1000, 1016, 1032] (enable demo_playing))) =
       disable (hostFrames demo_engine [1000, 1016, 1032] (enable demo_playing))
   \<and> filter isArtboardAdvance (trace (hostFrame demo_engine 5000 (enable demo_stopped))) =
       [Artboard_advance 0 0, Artboard_advance 0 4]"
proof -
  have a: "\<not> enabled (disable demo_running)"
    by (simp add: disable_def cancelAnimationFrame_def Let_def)
  show ?thesis
    using a
      disable_then_enable [where s = "disable demo_running" and eng = demo_engine and t = 1016]
      disable_then_enable [where s = demo_running and eng = demo_engine
        and ts = "[1016, 1032, 1048]"]
      disable_then_enable [where s = demo_playing and eng = demo_engine
        and us = "[1000, 1016, 1032]" and ts = "[1064, 1080]"]
      disable_then_enable [where s = demo_stopped and eng = demo_engine and t = 5000
        and a = "\<lparr>ab_id = 0, ab_def = demo_artboard\<rparr>"]
    by (simp add: demo_stopped_fields demo_running_fields demo_playing_fields)
qed

text \<open>
  The claim as stated fails on the sample scene, in both halves. The sprite that the
  constructor leaves without \<^verbatim>\<open>autoPlay\<close>, enabled from \<^verbatim>\<open>onReady\<close>, has two requests
  queued in every frame and stores the handle of one; disabled after its frame at
  1000 ms, it still advances the artboard in the host frame at 1016 ms. And the sprite
  enabled from the start, disabled after its frame at 1000 ms (which does stop it) and
  enabled again, advances by 4 s in its first frame at 5000 ms, the time since the
  step at 1000 ms, not by 0.
\<close>

theorem disable_then_enable_counterexample:
  "filter isArtboardAdvance (trace (disable demo_manual)) =
     [Artboard_advance 0 0, Artboard_advance 0 0]
   \<and> filter isArtboardAdvance (trace (hostFrame demo_engine 1016 (disable demo_manual))) =
       [Artboard_advance 0 0, Artboard_advance 0 0, Artboard_advance 0 (2 / 125)]
   \<and> filter isArtboardAdvance (trace demo_stopped) = [Artboard_advance 0 0]
   \<and> filter isArtboardAdvance (trace demo_resumed) = [Artboard_advance 0 0, Artboard_advance 0 4]"
proof -
  have d: "pending (disable demo_manual) = [1]" "artboard (disable demo_manual) = Some \<lparr>ab_id = 0, ab_def = demo_artboard\<rparr>"
      "renderer (disable demo_manual)" "lastTime (disable demo_manual) = 1000"
    by (simp_all add: disable_def cancelAnimationFrame_def Let_def demo_manual_fields)
  have "hostFrame demo_engine 1016 (disable demo_manual) =
      renderLoop demo_engine 1016 ((disable demo_manual)\<lparr>pending := [], requested := 0\<rparr>)"
    by (simp add: hostFrame_def d)
  then have "filter isArtboardAdvance (trace (hostFrame demo_engine 1016 (disable demo_manual))) =
      [Artboard_advance 0 0, Artboard_advance 0 0, Artboard_advance 0 (2 / 125)]"
    using renderLoop_trace
      [of "(disable demo_manual)\<lparr>pending := [], requested := 0\<rparr>"
          "\<lparr>ab_id = 0, ab_def = demo_artboard\<rparr>" demo_engine 1016]
    by (simp add: d disable_trace demo_manual_fields machine_calls_no_artboard_advance
        animation_calls_no_artboard_advance drawArtboard_def elapsedAt_def)
  moreover have "filter isArtboardAdvance (trace demo_resumed) =
      [Artboard_advance 0 0, Artboard_advance 0 4]"
    by (simp add: demo_resumed_def
        enable_first_frame [of demo_stopped "\<lparr>ab_id = 0, ab_def = demo_artboard\<rparr>"]
        demo_stopped_fields elapsedAt_def)
  ultimately show ?thesis
    by (simp add: disable_trace demo_manual_fields demo_stopped_fields demo_running_fields
        demo_playing_fields)
qed

section \<open>Loading state machines\<close>

lemma unloadStateMachine_nameless:
  "list_all (\<lambda>m. sm_name m = None) (stateMachines s) \<Longrightarrow> unloadStateMachine name s = s"
  by (simp add: unloadStateMachine_def list_all_iff)

text \<open>
  Claim C7 does not hold of the code. \<^verbatim>\<open>unloadStateMachine\<close> looks for the instance by
  its \<^verbatim>\<open>name\<close> property, which no instance of the engine has, so it never finds one.
  On the playing sprite of the sample scene, which has \<^verbatim>\<open>Idle\<close> and \<^verbatim>\<open>Blink\<close> loaded,
  loading \<^verbatim>\<open>Idle\<close> twice more adds two instances and deletes none: three instances of
  \<^verbatim>\<open>Idle\<close> are live afterwards.
\<close>

theorem loadStateMachine_twice_duplicates:
  "map sm_id (stateMachines (sprite_of (loadStateMachine (Name ''Idle'')
       (sprite_of (loadStateMachine (Name ''Idle'') demo_playing))))) = [1, 4, 6, 9]
   \<and> map sm_machine (stateMachines (sprite_of (loadStateMachine (Name ''Idle'')
       (sprite_of (loadStateMachine (Name ''Idle'') demo_playing))))) =
       [Some ''Idle'', Some ''Blink'', Some ''Idle'', Some ''Idle'']
   \<and> trace (sprite_of (loadStateMachine (Name ''Idle'')
       (sprite_of (loadStateMachine (Name ''Idle'') demo_playing)))) =
       trace demo_playing @ [SM_new 6, SM_new 9]"
  by (simp add: loadStateMachine_def sprite_of_def stateMachineByName_def
      newStateMachineInstance_def unloadStateMachine_def initInputFields_def Let_def
      demo_playing_fields demo_artboard_def demo_machine_def)

section \<open>Loading an artboard\<close>

text \<open>
  Claim C8. Without a loaded file (and hence without an artboard) \<^verbatim>\<open>loadArtboard\<close>
  changes nothing. With a file that has no artboard of the given name, the call
  returns with the artboard unset: the previous artboard, if any, is deleted, the
  texture is taken from the canvas again, and every other field of the sprite is as
  before. The call never raises: \<open>loadArtboard\<close> has no error result.
\<close>

theorem loadArtboard_missing:
  "(riveFile s = None \<and> artboard s = None \<longrightarrow> loadArtboard eng name s = s)
   \<and> (riveFile s = Some f \<and> canvas s = Some c \<and> n \<noteq> [] \<and> n \<notin> set (map abd_name f) \<longrightarrow>
        loadArtboard eng (Some n) s =
          s\<lparr>artboard := None,
            trace := trace s
              @ (case artboard s of None \<Rightarrow> [] | Some a \<Rightarrow> [Artboard_delete (ab_id a)])
              @ [Texture_from]\<rparr>)"
proof (intro conjI impI)
  assume "riveFile s = None \<and> artboard s = None"
  then show "loadArtboard eng name s = s"
    by (simp add: loadArtboard_def updateSize_def)
next
  assume h: "riveFile s = Some f \<and> canvas s = Some c \<and> n \<noteq> [] \<and> n \<notin> set (map abd_name f)"
  then have "find (\<lambda>d. abd_name d = n) f = None"
    by (auto simp: find_None_iff)
  with h show "loadArtboard eng (Some n) s =
      s\<lparr>artboard := None,
        trace := trace s
          @ (case artboard s of None \<Rightarrow> [] | Some a \<Rightarrow> [Artboard_delete (ab_id a)])
          @ [Texture_from]\<rparr>"
    by (cases "artboard s") (simp_all add: loadArtboard_def updateSize_def artboardByName_def)
qed

text \<open>
  The witness: a sprite whose file has not arrived yet, and the playing sprite asked
  for an artboard that its file lacks.
\<close>

theorem loadArtboard_missing_witness:
  "riveFile (construct False True True) = None \<and> artboard (construct False True True) = None
   \<and> loadArtboard demo_engine (Some ''Main'') (construct False True True) = construct False True True
   \<and> ''Missing'' \<notin> set (map abd_name demo_file)
   \<and> loadArtboard demo_engine (Some ''Missing'') demo_playing =
       demo_playing\<lparr>artboard := None, trace := trace demo_playing @ [Artboard_delete 0, Texture_from]\<rparr>"
proof -
  have m: "''Missing'' \<notin> set (map abd_name demo_file)"
    by (simp add: demo_file_def demo_artboard_def)
  show ?thesis
    using m
      loadArtboard_missing [where s = "construct False True True" and eng = demo_engine
        and name = "Some ''Main''"]
      loadArtboard_missing [where s = demo_playing and eng = demo_engine and f = demo_file
        and c = "\<lparr>width = 200, height = 200\<rparr>" and n = "''Missing''"]
    by (simp add: construct_fields demo_playing_fields)
qed

lemma loadArtboard_keeps_instances:
  "stateMachines (loadArtboard eng name s) = stateMachines s
   \<and> animations (loadArtboard eng name s) = animations s
   \<and> inputFields (loadArtboard eng name s) = inputFields s"
  by (simp add: loadArtboard_def updateSize_def artboardByName_def defaultArtboard_def
      instantiateArtboard_def Let_def split: option.splits list.splits)

text \<open>
  Claim C1 does not hold of the code. \<^verbatim>\<open>loadArtboard\<close> deletes the old artboard and
  installs the new one, and touches neither list: on the playing sprite of the sample
  scene both machines and the animation are still listed afterwards, and none of them
  has been deleted. \<^verbatim>\<open>destroy\<close>, in contrast, deletes the instances before the artboard.
\<close>

theorem loadArtboard_leaves_instances:
  "map sm_id (stateMachines (loadArtboard demo_engine None demo_playing)) = [1, 4]
   \<and> map an_id (animations (loadArtboard demo_engine None demo_playing)) = [5]
   \<and> artboard (loadArtboard demo_engine None demo_playing) = Some \<lparr>ab_id = 6, ab_def = demo_artboard\<rparr>
   \<and> trace (loadArtboard demo_engine None demo_playing) =
       trace demo_playing @
       [Artboard_delete 0, Artboard_new 6, Texture_from, Renderer_align, Texture_update]"
  by (simp add: loadArtboard_def updateSize_def defaultArtboard_def instantiateArtboard_def
      Let_def demo_playing_fields demo_file_def)

lemma destroy_deletes_instances_first:
  "trace (destroy demo_playing) =
     trace demo_playing @
     [Sprite_destroy, SM_delete 1, SM_delete 4, Anim_delete 5, Artboard_delete 0, Renderer_delete,
      File_delete]"
  by (simp add: destroy_def disable_def cancelAnimationFrame_def Let_def demo_playing_fields)

section \<open>Playing animations\<close>

lemma playAnimation_not_ready:
  "artboard s = None \<Longrightarrow> \<not> rive s \<Longrightarrow> playAnimation anims s = Inr s"
  by (simp add: playAnimation_def)

lemma playAnimation_machine_driven:
  "stateMachines s \<noteq> [] \<Longrightarrow> playAnimation (Names []) s = Inr s"
  by (simp add: playAnimation_def)

lemma demo_unloaded_fields:
  "artboard demo_unloaded = None" "rive demo_unloaded" "stateMachines demo_unloaded = []"
  "animations demo_unloaded = []" "trace demo_unloaded = [Texture_from]"
  by (simp_all add: demo_unloaded_def demo_init_def demo_file_def demo_artboard_def model_defs Let_def)

text \<open>
  Claim C3 does not hold of the code. The guard of \<^verbatim>\<open>playAnimation\<close> returns only when
  both the artboard and the engine are missing. On the sprite whose engine and file are
  loaded and whose artboard is unset, \<^verbatim>\<open>playAnimation\<close> reads a property of the missing
  artboard and raises a \<^verbatim>\<open>TypeError\<close>, with a name as with no argument, where
  \<^verbatim>\<open>loadStateMachine\<close> returns silently.
\<close>

theorem playAnimation_without_artboard:
  "artboard demo_unloaded = None
   \<and> playAnimation (Name ''walk'') demo_unloaded = Inl (TypeError, demo_unloaded)
   \<and> playAnimation (Names []) demo_unloaded = Inl (TypeError, demo_unloaded)
   \<and> loadStateMachine (Name ''Idle'') demo_unloaded = Inr demo_unloaded"
  by (simp add: playAnimation_def loadStateMachine_def demo_unloaded_fields)

end
